theory Spec2Isabelle
  imports Main
begin

section \<open>Python values, exceptions and string helpers\<close>

text \<open>
  The program is Python 2 (\<^verbatim>\<open>src/ec2cluster/base.py\<close>). A call either returns a value or
  raises; a raised exception is the \<open>Inl\<close> side of a sum. Every operation takes the
  state of the outside world and returns it, so that what a call did not change can be
  stated.
\<close>

datatype pyval = PyNone | PyBool bool | PyInt int | PyStr string | PyTuple "pyval list"

text \<open>\<^verbatim>\<open>v == 'literal'\<close>: only a string equals a string.\<close>

fun py_eq_str :: "pyval \<Rightarrow> string \<Rightarrow> bool" where
  "py_eq_str (PyStr s) t = (s = t)"
| "py_eq_str v t = False"

text \<open>\<^verbatim>\<open>s.endswith(suf)\<close>.\<close>

definition endswith :: "string \<Rightarrow> string \<Rightarrow> bool" where
  "endswith s suf = (length suf \<le> length s \<and> drop (length s - length suf) s = suf)"

text \<open>\<^verbatim>\<open>s.split()\<close>: the maximal runs of characters that are not white space.\<close>

definition is_space :: "char \<Rightarrow> bool" where
  "is_space ch = (ch \<in> set [CHR '' '', CHR 0x09, CHR 0x0A, CHR 0x0B, CHR 0x0C, CHR 0x0D])"

fun split_acc :: "string \<Rightarrow> string \<Rightarrow> string list" where
  "split_acc cur [] = (if cur = [] then [] else [cur])"
| "split_acc cur (ch # s) =
     (if is_space ch
      then (if cur = [] then split_acc [] s else cur # split_acc [] s)
      else split_acc (cur @ [ch]) s)"

definition py_split :: "string \<Rightarrow> string list" where
  "py_split s = split_acc [] s"

datatype dns_exception = NXDOMAIN | NoAnswer | NoNameservers | Timeout

datatype pg_exception = OperationalError | ProgrammingError | InterfaceError

datatype error =
    Exception string
  | NotImplementedError
  | KeyError string
  | IndexError
  | IOError string
  | OSError
  | TemplateError
  | DnsException dns_exception
  | DNSServerError string
  | PgException pg_exception
  | CalledProcessError int "string list" string

datatype level = INFO | WARNING | CRITICAL

section \<open>The cluster object and the outside world\<close>

text \<open>
  The module \<^verbatim>\<open>ec2cluster.default_settings\<close> is imported by \<^verbatim>\<open>base.py\<close> but is not
  part of the sources at hand: the constants the code reads from it are the fields of
  this record, left open.
\<close>

record default_settings =
  ROUTE53_ZONE_ID :: string
  MASTER_CNAME_TTL :: nat
  SLAVE_CNAME_TTL :: nat
  PG_USER :: string
  PG_CTL :: string
  PG_DIR :: string
  RECOVERY_FILENAME :: string
  RECOVERY_TEMPLATE_MASTER :: string
  RECOVERY_TEMPLATE_SLAVE :: string

text \<open>
  The attributes \<^verbatim>\<open>__init__\<close> gives a cluster object (\<^verbatim>\<open>self.settings\<close>,
  \<^verbatim>\<open>self.metadata\<close>, \<^verbatim>\<open>self.master_cname\<close>, \<^verbatim>\<open>self.slave_cname\<close>), with the
  settings module beside them.
\<close>

record cluster =
  module_settings :: default_settings
  self_settings :: "string \<rightharpoonup> string"
  metadata :: "string \<rightharpoonup> string"
  master_cname :: string
  slave_cname :: string

text \<open>
  A resource record set of the Route53 zone. The program queries, creates and deletes
  records of type \<^verbatim>\<open>'CNAME'\<close> only, so the zone holds the CNAME record sets. Each holds
  one value (\<^verbatim>\<open>add_value\<close> is called once per change).
\<close>

record rrset =
  rr_name :: string
  rr_ttl :: nat
  rr_weight :: "string option"
  rr_identifier :: "string option"
  rr_value :: string

datatype action = CREATE | DELETE

datatype change = Change action rrset

datatype proc_result = Exited int string | NoSuchProgram

record cron_job =
  job_command :: string
  job_comment :: string
  job_hour_every :: "nat option"

text \<open>
  The world outside the process: the naming service (the zone, and the failures the
  resolver and Route53 may answer with instead), the PostgreSQL servers reachable by a
  connection string (each answers a query with the value \<^verbatim>\<open>fetchone()\<close> returns, or
  raises), the outcome of running a command, the crontab of user \<^verbatim>\<open>postgres\<close>, the
  file system, Python's \<^verbatim>\<open>template % data\<close>, and what the process has logged,
  printed and run so far, with the attribute \<^verbatim>\<open>self.role\<close>.
\<close>

record world =
  zone :: "rrset list"
  resolver_fault :: "dns_exception option"
  route53_fault :: "string option"
  postgres :: "string \<Rightarrow> pg_exception + (string \<Rightarrow> pg_exception + pyval)"
  subprocess_result :: "string list \<Rightarrow> proc_result"
  commands_run :: "string list list"
  crontab :: "cron_job list"
  files :: "string \<rightharpoonup> string"
  render :: "string \<Rightarrow> (string \<rightharpoonup> string) \<Rightarrow> string option"
  logged :: "(level \<times> string) list"
  printed :: "string list"
  self_role :: "string option"

type_synonym 'a outcome = "(error + 'a) \<times> world"

definition log :: "level \<Rightarrow> string \<Rightarrow> world \<Rightarrow> world" where
  "log lvl msg w = w\<lparr>logged := logged w @ [(lvl, msg)]\<rparr>"

definition print :: "string \<Rightarrow> world \<Rightarrow> world" where
  "print msg w = w\<lparr>printed := printed w @ [msg]\<rparr>"

subsection \<open>The naming service\<close>

text \<open>
  \<^verbatim>\<open>dns.resolver.query(name, 'CNAME')\<close>: the values bound to the name, \<open>NXDOMAIN\<close> when
  the name has no record, or the failure the resolver is in.
\<close>

definition bindings :: "rrset list \<Rightarrow> string \<Rightarrow> rrset list" where
  "bindings z name = filter (\<lambda>r. rr_name r = name) z"

definition resolver_query :: "world \<Rightarrow> string \<Rightarrow> dns_exception + string list" where
  "resolver_query w name =
     (case resolver_fault w of
        Some e \<Rightarrow> Inl e
      | None \<Rightarrow> (case bindings (zone w) name of
                   [] \<Rightarrow> Inl NXDOMAIN
                 | r # rs \<Rightarrow> Inr (map rr_value (r # rs))))"

text \<open>
  \<^verbatim>\<open>ResourceRecordSets.commit()\<close>: Route53 applies the changes of a batch in order and
  all together or not at all. It refuses to create a record set whose name and set
  identifier are taken, with a message that ends in \<^verbatim>\<open>it already exists\<close>, and to delete
  one that is not in the zone as given. A refusal is a \<^verbatim>\<open>DNSServerError\<close> carrying the
  message; \<open>route53_fault\<close> is a refusal for any other reason.
\<close>

definition same_set :: "rrset \<Rightarrow> rrset \<Rightarrow> bool" where
  "same_set a b = (rr_name a = rr_name b \<and> rr_identifier a = rr_identifier b)"

fun apply_change :: "rrset list \<Rightarrow> change \<Rightarrow> string + rrset list" where
  "apply_change z (Change CREATE r) =
     (if filter (same_set r) z = []
      then Inr (z @ [r])
      else Inl (''Tried to create resource record set '' @ rr_name r @ '' but it already exists''))"
| "apply_change z (Change DELETE r) =
     (if r \<in> set z
      then Inr (remove1 r z)
      else Inl (''Tried to delete resource record set '' @ rr_name r @ '' but it was not found''))"

fun apply_changes :: "rrset list \<Rightarrow> change list \<Rightarrow> string + rrset list" where
  "apply_changes z [] = Inr z"
| "apply_changes z (ch # chs) =
     (case apply_change z ch of
        Inl msg \<Rightarrow> Inl msg
      | Inr z' \<Rightarrow> apply_changes z' chs)"

definition commit :: "change list \<Rightarrow> world \<Rightarrow> unit outcome" where
  "commit changes w =
     (case route53_fault w of
        Some msg \<Rightarrow> (Inl (DNSServerError msg), w)
      | None \<Rightarrow> (case apply_changes (zone w) changes of
                   Inl msg \<Rightarrow> (Inl (DNSServerError msg), w)
                 | Inr z \<Rightarrow> (Inr (), w\<lparr>zone := z\<rparr>)))"

subsection \<open>Processes, cron and files\<close>

text \<open>
  \<^verbatim>\<open>subprocess.check_output(args, stderr=STDOUT)\<close> and \<^verbatim>\<open>subprocess.check_call(args)\<close>:
  a non-zero exit status raises \<^verbatim>\<open>CalledProcessError\<close>.
\<close>

definition check_output :: "string list \<Rightarrow> world \<Rightarrow> string outcome" where
  "check_output args w =
     (let w1 = w\<lparr>commands_run := commands_run w @ [args]\<rparr>
      in case subprocess_result w args of
           Exited rc out \<Rightarrow>
             (if rc = 0 then (Inr out, w1) else (Inl (CalledProcessError rc args out), w1))
         | NoSuchProgram \<Rightarrow> (Inl OSError, w1))"

definition check_call :: "string list \<Rightarrow> world \<Rightarrow> unit outcome" where
  "check_call args w =
     (let w1 = w\<lparr>commands_run := commands_run w @ [args]\<rparr>
      in case subprocess_result w args of
           Exited rc out \<Rightarrow>
             (if rc = 0 then (Inr (), w1) else (Inl (CalledProcessError rc args []), w1))
         | NoSuchProgram \<Rightarrow> (Inl OSError, w1))"

section \<open>EC2Mixin\<close>

text \<open>
  \<^verbatim>\<open>answers.rrset.items[0].to_text()\<close> (line 40): the resolver gives the target of a CNAME
  record as an absolute name, and its text ends in a dot whether or not the value stored
  in the zone does.
\<close>

definition to_text :: "string \<Rightarrow> string" where
  "to_text v = (if endswith v ''.'' then v else v @ ''.'')"

text \<open>
  \<^verbatim>\<open>EC2Mixin.acquire_master_cname\<close> (lines 26-60). The lookup yields the old value of the
  record, or nothing when the name does not exist (\<^verbatim>\<open>master_cname_exists\<close> is False).
  \<^verbatim>\<open>_get_route53_conn\<close> only builds a connection object.
\<close>

definition primary_binding :: "cluster \<Rightarrow> string \<Rightarrow> rrset" where
  "primary_binding c target =
     \<lparr>rr_name = master_cname c, rr_ttl = MASTER_CNAME_TTL (module_settings c),
      rr_weight = None, rr_identifier = None, rr_value = target\<rparr>"

definition acquire_master_cname :: "cluster \<Rightarrow> bool \<Rightarrow> world \<Rightarrow> unit outcome" where
  "acquire_master_cname c force w =
     (case (case resolver_query w (master_cname c) of
              Inl e \<Rightarrow>
                (if e = NXDOMAIN
                 then Inr (None, log INFO (master_cname c @ '' does not exist, so creating it'') w)
                 else Inl (DnsException e))
            | Inr answers \<Rightarrow>
                (case answers of
                   [] \<Rightarrow> Inl IndexError
                 | v # vs \<Rightarrow>
                     Inr (Some (to_text v),
                          log INFO (master_cname c @ '' already exists, so updating it'') w))) of
        Inl e \<Rightarrow> (Inl e, w)
      | Inr (old_cname_value, w1) \<Rightarrow>
          (if old_cname_value \<noteq> None \<and> force = False
           then (Inl (Exception (''CNAME '' @ master_cname c
                                 @ '' exists and force is False - not taking the CNAME'')),
                 log CRITICAL (''CNAME '' @ master_cname c
                               @ '' exists and force is false - exiting'') w1)
           else
             (let (changes, w2) =
                    (case old_cname_value of
                       Some old \<Rightarrow>
                         ([Change DELETE (primary_binding c old)],
                          log INFO (''Deleting existing record for '' @ master_cname c) w1)
                     | None \<Rightarrow> ([], w1));
                  w3 = log INFO (''Creating record for '' @ master_cname c) w2
              in case metadata c ''public-hostname'' of
                   None \<Rightarrow> (Inl (KeyError ''public-hostname''), w3)
                 | Some host \<Rightarrow>
                     (case commit (changes @ [Change CREATE (primary_binding c host)]) w3 of
                        (Inl e, w4) \<Rightarrow> (Inl e, w4)
                      | (Inr u, w4) \<Rightarrow>
                          (Inr (), log INFO ''Finished updating DNS records'' w4)))))"

text \<open>\<^verbatim>\<open>EC2Mixin.add_to_slave_cname_pool\<close> (lines 62-88).\<close>

definition pool_entry :: "cluster \<Rightarrow> string \<Rightarrow> string \<Rightarrow> rrset" where
  "pool_entry c ident target =
     \<lparr>rr_name = slave_cname c, rr_ttl = SLAVE_CNAME_TTL (module_settings c),
      rr_weight = Some ''10'', rr_identifier = Some ident, rr_value = target\<rparr>"

definition add_to_slave_cname_pool :: "cluster \<Rightarrow> world \<Rightarrow> unit outcome" where
  "add_to_slave_cname_pool c w =
     (case metadata c ''instance-id'' of
        None \<Rightarrow> (Inl (KeyError ''instance-id''), w)
      | Some ident \<Rightarrow>
          (let w1 = log INFO (''Adding '' @ ident @ '' to CNAME pool for '' @ slave_cname c) w
           in case metadata c ''public-hostname'' of
                None \<Rightarrow> (Inl (KeyError ''public-hostname''), w1)
              | Some host \<Rightarrow>
                  (case commit [Change CREATE (pool_entry c ident host)] w1 of
                     (Inl e, w2) \<Rightarrow>
                       (case e of
                          DNSServerError error_message \<Rightarrow>
                            (if endswith error_message ''it already exists''
                             then (Inr (),
                                   log INFO ''Finished updating DNS records''
                                     (log WARNING
                                        ''Attempted to create a CNAME, but one already exists for this instance''
                                        w2))
                             else (Inl e, w2))
                        | _ \<Rightarrow> (Inl e, w2))
                   | (Inr u, w2) \<Rightarrow>
                       (Inr (), log INFO ''Finished updating DNS records'' w2))))"

section \<open>BaseCluster\<close>

definition MASTER :: string where "MASTER = ''master''"
definition SLAVE :: string where "SLAVE = ''slave''"

text \<open>\<^verbatim>\<open>BaseCluster.determine_role\<close> (lines 159-172).\<close>

definition determine_role :: "cluster \<Rightarrow> world \<Rightarrow> string outcome" where
  "determine_role c w =
     (let w1 = log INFO ''Attempting to determine role'' w
      in case resolver_query w1 (master_cname c) of
           Inl e \<Rightarrow>
             (if e = NXDOMAIN
              then (Inr MASTER, log INFO ''Master CNAME does not exist, assuming master role'' w1)
              else (Inl (DnsException e), w1))
         | Inr answers \<Rightarrow>
             (Inr SLAVE, log INFO ''Master CNAME already exists, assuming slave role'' w1))"

text \<open>
  \<^verbatim>\<open>BaseCluster.release_master_cname\<close> (lines 189-193). \<^verbatim>\<open>PostgresqlCluster\<close> inherits
  from \<^verbatim>\<open>EC2Mixin\<close> and \<^verbatim>\<open>BaseCluster\<close>; neither \<^verbatim>\<open>EC2Mixin\<close> nor any cluster class
  defines the method again, so this body is the one every cluster object runs.
\<close>

definition release_master_cname :: "cluster \<Rightarrow> world \<Rightarrow> unit outcome" where
  "release_master_cname c w = (Inl NotImplementedError, w)"

section \<open>PostgresqlCluster\<close>

text \<open>\<^verbatim>\<open>_get_conn\<close> (lines 245-256): an absent or empty argument adds nothing.\<close>

definition conn_part :: "string \<Rightarrow> string option \<Rightarrow> string" where
  "conn_part key arg =
     (case arg of
        None \<Rightarrow> []
      | Some v \<Rightarrow> (if v = [] then [] else key @ ''='' @ v @ '' ''))"

definition get_conn ::
  "string option \<Rightarrow> string option \<Rightarrow> string option \<Rightarrow> world
     \<Rightarrow> pg_exception + (string \<Rightarrow> pg_exception + pyval)" where
  "get_conn host dbname user w =
     postgres w (conn_part ''host'' host @ conn_part ''dbname'' dbname @ conn_part ''user'' user)"

text \<open>\<^verbatim>\<open>start_process\<close> and \<^verbatim>\<open>poll_process\<close> (lines 258-264).\<close>

definition start_process :: "cluster \<Rightarrow> world \<Rightarrow> unit outcome" where
  "start_process c w = check_call [''/etc/init.d/postgresql'', ''start''] w"

definition poll_process :: "cluster \<Rightarrow> world \<Rightarrow> unit outcome" where
  "poll_process c w = (Inr (), w)"

text \<open>
  \<^verbatim>\<open>write_recovery_conf\<close> (lines 266-280). The output file is opened for writing, and so
  emptied, before the template is filled in.
\<close>

definition write_recovery_conf :: "cluster \<Rightarrow> string \<Rightarrow> world \<Rightarrow> unit outcome" where
  "write_recovery_conf c template_path w =
     (let w1 = log INFO (''Writing recovery file using template '' @ template_path) w;
          data = (metadata c ++ self_settings c)(''master_cname'' \<mapsto> master_cname c);
          out = RECOVERY_FILENAME (module_settings c)
      in case files w1 template_path of
           None \<Rightarrow> (Inl (IOError template_path), w1)
         | Some template \<Rightarrow>
             (case render w1 template data of
                None \<Rightarrow> (Inl TemplateError, w1\<lparr>files := (files w1)(out \<mapsto> [])\<rparr>)
              | Some text \<Rightarrow> (Inr (), w1\<lparr>files := (files w1)(out \<mapsto> text)\<rparr>)))"

text \<open>\<^verbatim>\<open>configure_cron_backup\<close> (lines 282-301); \<open>has_job\<close> is its loop.\<close>

definition backup_cmd :: string where
  "backup_cmd = ''PATH=/usr/local/bin:/usr/sbin snaptastic make-snapshots postgresql''"

fun has_job :: "cron_job list \<Rightarrow> string \<Rightarrow> bool" where
  "has_job [] cmd = False"
| "has_job (job # jobs) cmd = (if job_command job = cmd then True else has_job jobs cmd)"

definition configure_cron_backup :: "cluster \<Rightarrow> world \<Rightarrow> unit outcome" where
  "configure_cron_backup c w =
     (if has_job (crontab w) backup_cmd
      then (Inr (), log WARNING ''The backup cron job already exists - skipping'' w)
      else
        (let backup_job = \<lparr>job_command = backup_cmd, job_comment = ''Created by ec2cluster'',
                           job_hour_every = Some 8\<rparr>;
             w1 = log INFO (''Adding entry to postgres users crontab - '' @ backup_cmd) w
         in (Inr (), w1\<lparr>crontab := crontab w1 @ [backup_job]\<rparr>)))"

text \<open>\<^verbatim>\<open>prepare_master\<close> and \<^verbatim>\<open>prepare_slave\<close> (lines 303-319).\<close>

definition prepare_master :: "cluster \<Rightarrow> world \<Rightarrow> unit outcome" where
  "prepare_master c w =
     (case acquire_master_cname c False w of
        (Inl e, w1) \<Rightarrow> (Inl e, w1)
      | (Inr u, w1) \<Rightarrow>
          (case write_recovery_conf c (RECOVERY_TEMPLATE_MASTER (module_settings c)) w1 of
             (Inl e, w2) \<Rightarrow> (Inl e, w2)
           | (Inr u, w2) \<Rightarrow> configure_cron_backup c w2))"

definition prepare_slave :: "cluster \<Rightarrow> world \<Rightarrow> unit outcome" where
  "prepare_slave c w =
     (case write_recovery_conf c (RECOVERY_TEMPLATE_SLAVE (module_settings c)) w of
        (Inl e, w1) \<Rightarrow> (Inl e, w1)
      | (Inr u, w1) \<Rightarrow>
          add_to_slave_cname_pool c (log INFO ''Instance configured as a slave'' w1))"

text \<open>
  \<^verbatim>\<open>get_roles\<close> (lines 128-132) and \<^verbatim>\<open>initialise\<close> (lines 134-147), with the methods of
  \<^verbatim>\<open>PostgresqlCluster\<close>.
\<close>

definition get_roles :: "string \<rightharpoonup> (cluster \<Rightarrow> world \<Rightarrow> unit outcome)" where
  "get_roles = [MASTER \<mapsto> prepare_master, SLAVE \<mapsto> prepare_slave]"

definition initialise :: "cluster \<Rightarrow> world \<Rightarrow> unit outcome" where
  "initialise c w =
     (case determine_role c w of
        (Inl e, w1) \<Rightarrow> (Inl e, w1)
      | (Inr r, w1) \<Rightarrow>
          (let w2 = w1\<lparr>self_role := Some r\<rparr>
           in case get_roles r of
                Some handler \<Rightarrow>
                  (case handler c w2 of
                     (Inl e, w3) \<Rightarrow> (Inl e, w3)
                   | (Inr u, w3) \<Rightarrow>
                       (case start_process c w3 of
                          (Inl e, w4) \<Rightarrow> (Inl e, w4)
                        | (Inr u, w4) \<Rightarrow> poll_process c w4))
              | None \<Rightarrow>
                  (Inl (Exception (''Unrecognised role: '' @ r)),
                   log CRITICAL (''Unknown role: '' @ r) w2)))"

text \<open>
  What \<^verbatim>\<open>cursor.fetchone()\<close> returns: the next row as a tuple, or \<^verbatim>\<open>None\<close> when there is
  none.
\<close>

fun is_row :: "pyval \<Rightarrow> bool" where
  "is_row (PyTuple cols) = True"
| "is_row PyNone = True"
| "is_row v = False"

text \<open>\<^verbatim>\<open>check_master\<close> (lines 322-350).\<close>

definition check_master :: "cluster \<Rightarrow> world \<Rightarrow> bool outcome" where
  "check_master c w =
     (let w1 = log INFO (''Checking master DB at '' @ master_cname c) w
      in case get_conn (Some (master_cname c)) None None w1 of
           Inl e \<Rightarrow>
             (if e = OperationalError
              then (Inr False, log INFO ''Connecting to master failed'' w1)
              else (Inl (PgException e), w1))
         | Inr conn \<Rightarrow>
             (case conn ''SELECT pg_is_in_recovery()'' of
                Inl e \<Rightarrow> (Inl (PgException e), w1)
              | Inr res \<Rightarrow>
                  (if py_eq_str res ''t''
                   then (Inr False, w1)
                   else
                     (case conn ''SELECT 1'' of
                        Inl e \<Rightarrow> (Inl (PgException e), w1)
                      | Inr res' \<Rightarrow>
                          (if py_eq_str res' ''1'' then (Inr True, w1) else (Inr False, w1))))))"

text \<open>\<^verbatim>\<open>promote\<close> (lines 365-403).\<close>

definition promote_cmd :: "cluster \<Rightarrow> string" where
  "promote_cmd c =
     PG_CTL (module_settings c) @ '' -D '' @ PG_DIR (module_settings c) @ '' promote''"

definition not_standby :: string where
  "not_standby = ''server is not in standby mode'' @ [CHR 0x0A]"

definition promote :: "cluster \<Rightarrow> bool \<Rightarrow> world \<Rightarrow> unit outcome" where
  "promote c force w =
     (case (case check_master c w of
              (Inl e, w1) \<Rightarrow>
                (if e = PgException OperationalError
                 then Inr (False, print ''Could not connect to master'' w1)
                 else Inl (e, w1))
            | (Inr b, w1) \<Rightarrow> Inr (b, w1)) of
        Inl (e, w1) \<Rightarrow> (Inl e, w1)
      | Inr (active_master, w1) \<Rightarrow>
          (let w2 = (if active_master
                     then print (''There is an active server at '' @ master_cname c) w1
                     else w1)
           in if active_master \<and> force = False
              then (Inr (),
                    print (''Refusing to promote slave without '' @ [CHR 0x22] @ ''force''
                           @ [CHR 0x22] @ '', exiting.'') w2)
              else
                (let w3 = print (''Running promote command: '' @ promote_cmd c) w2
                 in case check_output (py_split (promote_cmd c)) w3 of
                      (Inl e, w4) \<Rightarrow>
                        (case e of
                           CalledProcessError rc cmd out \<Rightarrow>
                             (if endswith out not_standby
                              then (Inl (Exception out),
                                    log CRITICAL
                                      ''This server is not in standby mode, so can not be promoted''
                                      w4)
                              else (Inl e, print out w4))
                         | _ \<Rightarrow> (Inl e, w4))
                    | (Inr out, w4) \<Rightarrow> configure_cron_backup c w4)))"

section \<open>Example states\<close>

text \<open>
  A node with the identity \<^verbatim>\<open>VagrantMixin.get_metadata\<close> gives, and a world in which
  the naming service answers, no database accepts connections and every command exits
  with status 0.
\<close>

definition example_settings :: default_settings where
  "example_settings =
     \<lparr>ROUTE53_ZONE_ID = ''Z123'', MASTER_CNAME_TTL = 60, SLAVE_CNAME_TTL = 60,
      PG_USER = ''postgres'', PG_CTL = ''/usr/bin/pg_ctl'', PG_DIR = ''/var/lib/postgresql'',
      RECOVERY_FILENAME = ''/var/lib/postgresql/recovery.conf'',
      RECOVERY_TEMPLATE_MASTER = ''/etc/ec2cluster/master.template'',
      RECOVERY_TEMPLATE_SLAVE = ''/etc/ec2cluster/slave.template''\<rparr>"

definition example_cluster :: cluster where
  "example_cluster =
     \<lparr>module_settings = example_settings, self_settings = Map.empty,
      metadata = [''instance-id'' \<mapsto> ''i-12346'',
                  ''public-hostname'' \<mapsto> ''instance12346.vagranttest.example.com''],
      master_cname = ''master.vagranttest.example.com'',
      slave_cname = ''slave.vagranttest.example.com''\<rparr>"

definition quiet_world :: "rrset list \<Rightarrow> world" where
  "quiet_world z =
     \<lparr>zone = z, resolver_fault = None, route53_fault = None,
      postgres = (\<lambda>s. Inl OperationalError),
      subprocess_result = (\<lambda>args. Exited 0 []),
      commands_run = [], crontab = [], files = Map.empty,
      render = (\<lambda>template data. Some template),
      logged = [], printed = [], self_role = None\<rparr>"

text \<open>
  A primary that is up at the primary name: it is not in recovery and answers the probe,
  each with a one-column row.
\<close>

definition live_primary :: "string \<Rightarrow> pg_exception + pyval" where
  "live_primary q =
     (if q = ''SELECT pg_is_in_recovery()'' then Inr (PyTuple [PyBool False])
      else if q = ''SELECT 1'' then Inr (PyTuple [PyInt 1])
      else Inl ProgrammingError)"

definition primary_up_world :: world where
  "primary_up_world =
     (quiet_world [primary_binding example_cluster ''a.example.com''])
       \<lparr>postgres := (\<lambda>s. if s = ''host=master.vagranttest.example.com ''
                          then Inr live_primary else Inl OperationalError)\<rparr>"

text \<open>
  A world where the local server is not a standby, so that \<^verbatim>\<open>pg_ctl promote\<close> fails, and
  one where both recovery templates exist.
\<close>

definition not_standby_world :: world where
  "not_standby_world =
     (quiet_world [])
       \<lparr>subprocess_result :=
          (\<lambda>args. Exited 1 (''pg_ctl: cannot promote server; '' @ not_standby))\<rparr>"

definition bootable_world :: world where
  "bootable_world =
     (quiet_world [])
       \<lparr>files := [''/etc/ec2cluster/master.template'' \<mapsto> ''# master'',
                  ''/etc/ec2cluster/slave.template'' \<mapsto> ''standby_mode = on'']\<rparr>"

section \<open>Role resolution\<close>

lemma resolver_query_log [simp]: "resolver_query (log lvl msg w) name = resolver_query w name"
  by (simp add: resolver_query_def log_def split: option.splits)

lemma zone_log [simp]: "zone (log lvl msg w) = zone w"
  by (simp add: log_def)

text \<open>
  C1. With the resolver answering, role resolution returns \<open>master\<close> when the zone has
  no binding for the primary name and \<open>slave\<close> when it has one, whatever the binding
  points to; the zone is not changed.
\<close>

theorem determine_role_by_binding:
  assumes "resolver_fault w = None"
  shows "fst (determine_role c w) =
           Inr (if bindings (zone w) (master_cname c) = [] then MASTER else SLAVE)
         \<and> zone (snd (determine_role c w)) = zone w"
proof -
  have "resolver_query w (master_cname c) =
          (case bindings (zone w) (master_cname c) of
             [] \<Rightarrow> Inl NXDOMAIN | r # rs \<Rightarrow> Inr (map rr_value (r # rs)))"
    using assms by (simp add: resolver_query_def)
  then show ?thesis
    by (simp add: determine_role_def Let_def split: list.splits)
qed

theorem determine_role_by_binding_witness:
  "fst (determine_role example_cluster (quiet_world [])) = Inr MASTER
   \<and> fst (determine_role example_cluster
            (quiet_world [primary_binding example_cluster ''a.example.com''])) = Inr SLAVE"
  using determine_role_by_binding [of "quiet_world []" example_cluster]
        determine_role_by_binding
          [of "quiet_world [primary_binding example_cluster ''a.example.com'']" example_cluster]
  by (simp add: quiet_world_def bindings_def primary_binding_def)

lemma MASTER_neq_SLAVE: "MASTER \<noteq> SLAVE"
  by (simp add: MASTER_def SLAVE_def)

text \<open>
  C8. A lookup that fails for any reason other than \<open>NXDOMAIN\<close> makes role resolution
  raise that failure, with the zone untouched; it is not read as an absent binding.
  The role \<open>master\<close> comes out of the \<open>NXDOMAIN\<close> answer only.
\<close>

theorem determine_role_lookup_failure:
  "(resolver_query w (master_cname c) = Inl e \<and> e \<noteq> NXDOMAIN
      \<longrightarrow> fst (determine_role c w) = Inl (DnsException e)
          \<and> zone (snd (determine_role c w)) = zone w)
   \<and> (fst (determine_role c w) = Inr MASTER
      \<longrightarrow> resolver_query w (master_cname c) = Inl NXDOMAIN)"
  by (auto simp add: determine_role_def Let_def MASTER_neq_SLAVE[symmetric]
      split: sum.splits if_splits)

theorem determine_role_lookup_failure_witness:
  "fst (determine_role example_cluster ((quiet_world [])\<lparr>resolver_fault := Some Timeout\<rparr>))
     = Inl (DnsException Timeout)
   \<and> resolver_query (quiet_world []) (master_cname example_cluster) = Inl NXDOMAIN"
  using determine_role_lookup_failure
          [of "(quiet_world [])\<lparr>resolver_fault := Some Timeout\<rparr>" example_cluster Timeout]
        determine_role_lookup_failure [of "quiet_world []" example_cluster NXDOMAIN]
  by (simp add: resolver_query_def quiet_world_def bindings_def determine_role_def Let_def log_def)

section \<open>Claiming and releasing the primary name\<close>

text \<open>
  C2. With the resolver answering and a binding for the primary name in the zone,
  \<^verbatim>\<open>acquire_master_cname(force=False)\<close> raises the exception that says the CNAME exists
  and leaves the zone as it was.
\<close>

theorem acquire_master_cname_already_claimed:
  assumes "resolver_fault w = None"
    and "bindings (zone w) (master_cname c) \<noteq> []"
  shows "fst (acquire_master_cname c False w) =
           Inl (Exception (''CNAME '' @ master_cname c
                           @ '' exists and force is False - not taking the CNAME''))
         \<and> zone (snd (acquire_master_cname c False w)) = zone w"
proof -
  obtain r rs where "bindings (zone w) (master_cname c) = r # rs"
    using assms(2) by (cases "bindings (zone w) (master_cname c)") auto
  then have "resolver_query w (master_cname c) = Inr (rr_value r # map rr_value rs)"
    using assms(1) by (simp add: resolver_query_def)
  then show ?thesis
    by (simp add: acquire_master_cname_def)
qed

theorem acquire_master_cname_already_claimed_witness:
  "fst (acquire_master_cname example_cluster False
          (quiet_world [primary_binding example_cluster ''a.example.com''])) =
     Inl (Exception ''CNAME master.vagranttest.example.com exists and force is False - not taking the CNAME'')
   \<and> zone (snd (acquire_master_cname example_cluster False
          (quiet_world [primary_binding example_cluster ''a.example.com''])))
     = [primary_binding example_cluster ''a.example.com'']"
  using acquire_master_cname_already_claimed
          [of "quiet_world [primary_binding example_cluster ''a.example.com'']" example_cluster]
  by (simp add: quiet_world_def bindings_def primary_binding_def example_cluster_def)

text \<open>
  C7, on the code. The zone binds the primary name to this very instance, as it does after
  the node has claimed the name. \<^verbatim>\<open>release_master_cname\<close> raises
  \<^verbatim>\<open>NotImplementedError\<close>, and the binding is still in the zone.
\<close>

theorem release_master_cname_leaves_own_binding:
  "metadata example_cluster ''public-hostname'' = Some ''instance12346.vagranttest.example.com''
   \<and> fst (release_master_cname example_cluster
            (quiet_world [primary_binding example_cluster
                            ''instance12346.vagranttest.example.com'']))
       = Inl NotImplementedError
   \<and> bindings (zone (snd (release_master_cname example_cluster
            (quiet_world [primary_binding example_cluster
                            ''instance12346.vagranttest.example.com'']))))
       (master_cname example_cluster)
       = [primary_binding example_cluster ''instance12346.vagranttest.example.com'']"
  by (simp add: release_master_cname_def quiet_world_def bindings_def primary_binding_def
      example_cluster_def)

subsection \<open>Taking the primary name by force\<close>

lemma world_log_fields [simp]:
  "resolver_fault (log lvl msg w) = resolver_fault w"
  "route53_fault (log lvl msg w) = route53_fault w"
  "postgres (log lvl msg w) = postgres w"
  "subprocess_result (log lvl msg w) = subprocess_result w"
  "commands_run (log lvl msg w) = commands_run w"
  "crontab (log lvl msg w) = crontab w"
  "files (log lvl msg w) = files w"
  "render (log lvl msg w) = render w"
  "printed (log lvl msg w) = printed w"
  by (simp_all add: log_def)

lemma commit_fields:
  "resolver_fault (snd (commit chs w)) = resolver_fault w"
  "route53_fault (snd (commit chs w)) = route53_fault w"
  by (simp_all add: commit_def split: option.splits sum.splits)


lemma rr_name_primary_binding [simp]: "rr_name (primary_binding c t) = master_cname c"
  by (simp add: primary_binding_def)




section \<open>Registration in the replica pool\<close>

lemma commit_log:
  "commit chs (log lvl msg w) = (fst (commit chs w), log lvl msg (snd (commit chs w)))"
  by (simp add: commit_def log_def split: option.splits sum.splits)

lemma commit_rejected:
  assumes "fst (commit chs w) = Inl e"
  shows "snd (commit chs w) = w"
  using assms by (simp add: commit_def split: option.splits sum.splits)

lemma commit_create_exists:
  assumes "route53_fault w = None" and "filter (same_set r) (zone w) \<noteq> []"
  shows "fst (commit [Change CREATE r] w) =
           Inl (DNSServerError (''Tried to create resource record set '' @ rr_name r
                                @ '' but it already exists''))"
  using assms by (simp add: commit_def)

lemma commit_create_fresh:
  assumes "route53_fault w = None" and "filter (same_set r) (zone w) = []"
  shows "commit [Change CREATE r] w = (Inr (), w\<lparr>zone := zone w @ [r]\<rparr>)"
  using assms by (simp add: commit_def)

lemma endswith_append [simp]: "endswith (s @ suf) suf"
  by (simp add: endswith_def)

lemma already_exists_message:
  "endswith (''Tried to create resource record set '' @ name @ '' but it already exists'')
     ''it already exists''"
proof -
  have "''Tried to create resource record set '' @ name @ '' but it already exists''
          = (''Tried to create resource record set '' @ name @ '' but '') @ ''it already exists''"
    by simp
  then show ?thesis
    using endswith_append by metis
qed

lemma add_to_slave_cname_pool_unfold:
  assumes "metadata c ''instance-id'' = Some ident"
    and "metadata c ''public-hostname'' = Some host"
  shows "fst (add_to_slave_cname_pool c w) =
           (case fst (commit [Change CREATE (pool_entry c ident host)] w) of
              Inl e \<Rightarrow> (case e of
                          DNSServerError m \<Rightarrow>
                            if endswith m ''it already exists'' then Inr () else Inl e
                        | _ \<Rightarrow> Inl e)
            | Inr u \<Rightarrow> Inr ())"
    and "zone (snd (add_to_slave_cname_pool c w))
           = zone (snd (commit [Change CREATE (pool_entry c ident host)] w))"
    and "route53_fault (snd (add_to_slave_cname_pool c w)) = route53_fault w"
  using assms
  by (simp_all add: add_to_slave_cname_pool_def Let_def commit_log commit_fields
      split: prod.splits sum.splits error.splits)

text \<open>
  C5. Whenever Route53 refuses the batch of \<^verbatim>\<open>add_to_slave_cname_pool\<close>, the zone is left
  as it was, and the call returns normally if the message ends in \<^verbatim>\<open>it already exists\<close>
  and raises the refusal otherwise. A pool entry with this instance's identifier in the
  zone makes Route53 refuse in the first way, so the call succeeds and changes nothing.
  Hence with Route53 answering the call can be repeated: the second call succeeds and
  keeps the zone of the first, and a zone that had no entry for the identifier has
  exactly one afterwards.
\<close>

theorem add_to_slave_cname_pool_idempotent:
  assumes "metadata c ''instance-id'' = Some ident"
    and "metadata c ''public-hostname'' = Some host"
  shows "(fst (commit [Change CREATE (pool_entry c ident host)] w) = Inl (DNSServerError msg)
            \<longrightarrow> fst (add_to_slave_cname_pool c w)
                  = (if endswith msg ''it already exists'' then Inr () else Inl (DNSServerError msg))
                \<and> zone (snd (add_to_slave_cname_pool c w)) = zone w)
         \<and> (route53_fault w = None \<and> filter (same_set (pool_entry c ident host)) (zone w) \<noteq> []
            \<longrightarrow> fst (add_to_slave_cname_pool c w) = Inr ()
                \<and> zone (snd (add_to_slave_cname_pool c w)) = zone w)
         \<and> (route53_fault w = None
            \<longrightarrow> fst (add_to_slave_cname_pool c w) = Inr ()
                \<and> fst (add_to_slave_cname_pool c (snd (add_to_slave_cname_pool c w))) = Inr ()
                \<and> zone (snd (add_to_slave_cname_pool c (snd (add_to_slave_cname_pool c w))))
                    = zone (snd (add_to_slave_cname_pool c w)))
         \<and> (route53_fault w = None \<and> filter (same_set (pool_entry c ident host)) (zone w) = []
            \<longrightarrow> filter (same_set (pool_entry c ident host))
                  (zone (snd (add_to_slave_cname_pool c (snd (add_to_slave_cname_pool c w)))))
                  = [pool_entry c ident host])"
proof -
  let ?r = "pool_entry c ident host"
  note u = add_to_slave_cname_pool_unfold [OF assms]
  have rejected: "fst (add_to_slave_cname_pool c w)
                    = (if endswith msg ''it already exists'' then Inr () else Inl (DNSServerError msg))
                  \<and> zone (snd (add_to_slave_cname_pool c w)) = zone w"
    if "fst (commit [Change CREATE ?r] w) = Inl (DNSServerError msg)" for w msg
    using that commit_rejected [OF that] by (simp add: u)
  have exists: "fst (add_to_slave_cname_pool c w) = Inr ()
                \<and> zone (snd (add_to_slave_cname_pool c w)) = zone w"
    if "route53_fault w = None" and "filter (same_set ?r) (zone w) \<noteq> []" for w
    using rejected [OF commit_create_exists [OF that]] already_exists_message by simp
  have fresh: "fst (add_to_slave_cname_pool c w) = Inr ()
               \<and> zone (snd (add_to_slave_cname_pool c w)) = zone w @ [?r]"
    if "route53_fault w = None" and "filter (same_set ?r) (zone w) = []" for w
    using commit_create_fresh [OF that] by (simp add: u)
  have self: "same_set ?r ?r" by (simp add: same_set_def)
  have after: "filter (same_set ?r) (zone (snd (add_to_slave_cname_pool c w))) \<noteq> []"
    if "route53_fault w = None" for w
  proof (cases "filter (same_set ?r) (zone w) = []")
    case True
    then show ?thesis using fresh [OF that True] self by simp
  next
    case False
    then show ?thesis using exists [OF that False] by simp
  qed
  have once: "fst (add_to_slave_cname_pool c w) = Inr ()" if "route53_fault w = None" for w
    using fresh [OF that] exists [OF that] by blast
  have twice: "fst (add_to_slave_cname_pool c (snd (add_to_slave_cname_pool c w))) = Inr ()
               \<and> zone (snd (add_to_slave_cname_pool c (snd (add_to_slave_cname_pool c w))))
                   = zone (snd (add_to_slave_cname_pool c w))"
    if "route53_fault w = None" for w
    using exists [of "snd (add_to_slave_cname_pool c w)"] after [OF that] that
    by (simp add: u(3))
  have one: "filter (same_set ?r)
               (zone (snd (add_to_slave_cname_pool c (snd (add_to_slave_cname_pool c w))))) = [?r]"
    if "route53_fault w = None" and "filter (same_set ?r) (zone w) = []" for w
    using twice [OF that(1)] fresh [OF that] that(2) self by simp
  show ?thesis
    using rejected exists once twice one by blast
qed

theorem add_to_slave_cname_pool_idempotent_witness:
  "fst (add_to_slave_cname_pool example_cluster
          ((quiet_world [])\<lparr>route53_fault := Some ''Rate exceeded''\<rparr>))
     = Inl (DNSServerError ''Rate exceeded'')
   \<and> fst (add_to_slave_cname_pool example_cluster
          (quiet_world [pool_entry example_cluster ''i-12346'' ''old.example.com''])) = Inr ()
   \<and> zone (snd (add_to_slave_cname_pool example_cluster
          (quiet_world [pool_entry example_cluster ''i-12346'' ''old.example.com''])))
     = [pool_entry example_cluster ''i-12346'' ''old.example.com'']
   \<and> zone (snd (add_to_slave_cname_pool example_cluster
            (snd (add_to_slave_cname_pool example_cluster (quiet_world [])))))
     = [pool_entry example_cluster ''i-12346'' ''instance12346.vagranttest.example.com'']"
  using add_to_slave_cname_pool_idempotent
    [of example_cluster "''i-12346''" "''instance12346.vagranttest.example.com''"
        "(quiet_world [])\<lparr>route53_fault := Some ''Rate exceeded''\<rparr>" "''Rate exceeded''"]
    add_to_slave_cname_pool_idempotent
    [of example_cluster "''i-12346''" "''instance12346.vagranttest.example.com''"
        "quiet_world [pool_entry example_cluster ''i-12346'' ''old.example.com'']" "[]"]
    add_to_slave_cname_pool_idempotent
    [of example_cluster "''i-12346''" "''instance12346.vagranttest.example.com''"
        "quiet_world []" "[]"]
  by (simp add: example_cluster_def quiet_world_def commit_def pool_entry_def same_set_def
      endswith_def add_to_slave_cname_pool_def log_def)

section \<open>Promotion\<close>

lemma world_print_fields [simp]:
  "zone (print msg w) = zone w"
  "postgres (print msg w) = postgres w"
  "subprocess_result (print msg w) = subprocess_result w"
  "commands_run (print msg w) = commands_run w"
  "crontab (print msg w) = crontab w"
  "logged (print msg w) = logged w"
  by (simp_all add: print_def)

lemma py_eq_str_row: "is_row v \<Longrightarrow> \<not> py_eq_str v s"
  by (cases v) simp_all

lemma check_master_fields [simp]:
  "zone (snd (check_master c w)) = zone w"
  "subprocess_result (snd (check_master c w)) = subprocess_result w"
  "commands_run (snd (check_master c w)) = commands_run w"
  "crontab (snd (check_master c w)) = crontab w"
  by (simp_all add: check_master_def Let_def split: sum.splits)

text \<open>
  \<^verbatim>\<open>check_master\<close> compares what \<^verbatim>\<open>fetchone()\<close> returned with the strings \<^verbatim>\<open>'t'\<close> and
  \<^verbatim>\<open>'1'\<close>. Against servers that answer with rows it never returns True.
\<close>

lemma check_master_never_true:
  assumes "\<And>s conn q v. postgres w s = Inr conn \<Longrightarrow> conn q = Inr v \<Longrightarrow> is_row v"
  shows "fst (check_master c w) \<noteq> Inr True"
  using assms
  by (auto simp add: check_master_def get_conn_def Let_def py_eq_str_row split: sum.splits)

lemma configure_cron_backup_fields [simp]:
  "fst (configure_cron_backup c w) = Inr ()"
  "commands_run (snd (configure_cron_backup c w)) = commands_run w"
  "zone (snd (configure_cron_backup c w)) = zone w"
  by (simp_all add: configure_cron_backup_def Let_def)

lemma check_output_fields [simp]:
  "commands_run (snd (check_output args w)) = commands_run w @ [args]"
  by (simp add: check_output_def Let_def split: proc_result.splits)

lemma promote_stops:
  assumes "(fst (check_master c w) = Inr True \<and> \<not> force)
           \<or> (\<exists>e. fst (check_master c w) = Inl e \<and> e \<noteq> PgException OperationalError)"
  shows "commands_run (snd (promote c force w)) = commands_run w"
proof -
  obtain r w1 where cm: "check_master c w = (r, w1)"
    by (cases "check_master c w")
  have w1: "commands_run w1 = commands_run w"
    using check_master_fields(3) [of c w] cm by simp
  have "(r = Inr True \<and> \<not> force) \<or> (\<exists>e. r = Inl e \<and> e \<noteq> PgException OperationalError)"
    using assms cm by simp
  then show ?thesis
    using w1 cm by (auto simp add: promote_def Let_def)
qed

text \<open>
  The guard of \<^verbatim>\<open>promote\<close> itself: had \<^verbatim>\<open>check_master\<close> returned True, the call without
  force would return without running a command.
\<close>

lemma promote_blocked:
  assumes "fst (check_master c w) = Inr True"
  shows "fst (promote c False w) = Inr ()
         \<and> commands_run (snd (promote c False w)) = commands_run w"
proof -
  obtain r w1 where cm: "check_master c w = (r, w1)"
    by (cases "check_master c w")
  have w1: "commands_run w1 = commands_run w"
    using check_master_fields(3) [of c w] cm by simp
  have "r = Inr True"
    using assms cm by simp
  then show ?thesis
    using w1 cm by (simp add: promote_def Let_def)
qed

lemma promote_proceeds:
  assumes "fst (check_master c w) = Inr False
           \<or> fst (check_master c w) = Inl (PgException OperationalError)
           \<or> (fst (check_master c w) = Inr True \<and> force)"
  shows "commands_run (snd (promote c force w)) = commands_run w @ [py_split (promote_cmd c)]"
    and "fst (promote c force w) =
           (case subprocess_result w (py_split (promote_cmd c)) of
              Exited rc out \<Rightarrow>
                (if rc = 0 then Inr ()
                 else if endswith out not_standby then Inl (Exception out)
                 else Inl (CalledProcessError rc (py_split (promote_cmd c)) out))
            | NoSuchProgram \<Rightarrow> Inl OSError)"
proof -
  obtain r w1 where cm: "check_master c w = (r, w1)"
    by (cases "check_master c w")
  have w1: "subprocess_result w1 = subprocess_result w" "commands_run w1 = commands_run w"
    using check_master_fields(2,3) [of c w] cm by simp_all
  have r: "r = Inr False \<or> r = Inl (PgException OperationalError) \<or> (r = Inr True \<and> force)"
    using assms cm by simp
  from r w1 cm show "commands_run (snd (promote c force w))
                       = commands_run w @ [py_split (promote_cmd c)]"
    by (auto simp add: promote_def Let_def check_output_def
        split: proc_result.splits)
  from r w1 cm show "fst (promote c force w) =
           (case subprocess_result w (py_split (promote_cmd c)) of
              Exited rc out \<Rightarrow>
                (if rc = 0 then Inr ()
                 else if endswith out not_standby then Inl (Exception out)
                 else Inl (CalledProcessError rc (py_split (promote_cmd c)) out))
            | NoSuchProgram \<Rightarrow> Inl OSError)"
    by (auto simp add: promote_def Let_def check_output_def
        split: proc_result.splits)
qed

lemma py_split_example:
  "py_split (promote_cmd example_cluster) = [''/usr/bin/pg_ctl'', ''-D'', ''/var/lib/postgresql'', ''promote'']"
  by (simp add: py_split_def promote_cmd_def example_cluster_def example_settings_def is_space_def)

text \<open>
  C3, on the code. A primary is up at the primary name and answers both queries of
  \<^verbatim>\<open>check_master\<close> with a row. \<^verbatim>\<open>check_master\<close> compares each row with a string, so it
  returns False, and \<^verbatim>\<open>promote(force=False)\<close> runs the promotion command.
\<close>

theorem promote_ignores_active_master:
  "fst (check_master example_cluster primary_up_world) = Inr False
   \<and> fst (promote example_cluster False primary_up_world) = Inr ()
   \<and> commands_run (snd (promote example_cluster False primary_up_world))
       = [[''/usr/bin/pg_ctl'', ''-D'', ''/var/lib/postgresql'', ''promote'']]"
proof -
  have cm: "fst (check_master example_cluster primary_up_world) = Inr False"
    by (simp add: check_master_def get_conn_def conn_part_def Let_def primary_up_world_def
        quiet_world_def example_cluster_def live_primary_def log_def)
  have "subprocess_result primary_up_world (py_split (promote_cmd example_cluster)) = Exited 0 []"
    and "commands_run primary_up_world = []"
    by (simp_all add: primary_up_world_def quiet_world_def)
  then show ?thesis
    using cm promote_proceeds [of example_cluster primary_up_world False] py_split_example
    by simp
qed

text \<open>
  C6. When \<^verbatim>\<open>promote\<close> runs the promotion command and the command exits with a non-zero
  status and an output that ends in \<^verbatim>\<open>server is not in standby mode\<close> and a newline,
  \<^verbatim>\<open>promote\<close> raises \<^verbatim>\<open>Exception(output)\<close>, and the command has been run exactly once.
\<close>

theorem promote_not_in_standby:
  assumes "commands_run (snd (promote c force w)) \<noteq> commands_run w"
    and "subprocess_result w (py_split (promote_cmd c)) = Exited rc out"
    and "rc \<noteq> 0" and "endswith out not_standby"
  shows "fst (promote c force w) = Inl (Exception out)
         \<and> commands_run (snd (promote c force w)) = commands_run w @ [py_split (promote_cmd c)]"
proof -
  have go: "fst (check_master c w) = Inr False
           \<or> fst (check_master c w) = Inl (PgException OperationalError)
           \<or> (fst (check_master c w) = Inr True \<and> force)"
  proof (rule ccontr)
    assume n: "\<not> ?thesis"
    have "(fst (check_master c w) = Inr True \<and> \<not> force)
           \<or> (\<exists>e. fst (check_master c w) = Inl e \<and> e \<noteq> PgException OperationalError)"
    proof (cases "fst (check_master c w)")
      case (Inl e)
      then show ?thesis using n by auto
    next
      case (Inr b)
      then show ?thesis using n by (cases b) auto
    qed
    then show False using promote_stops assms(1) by blast
  qed
  show ?thesis
    using promote_proceeds [OF go] assms(2-4) by simp
qed

theorem promote_not_in_standby_witness:
  "fst (promote example_cluster False not_standby_world)
     = Inl (Exception (''pg_ctl: cannot promote server; server is not in standby mode'' @ [CHR 0x0A]))
   \<and> commands_run (snd (promote example_cluster False not_standby_world))
       = [[''/usr/bin/pg_ctl'', ''-D'', ''/var/lib/postgresql'', ''promote'']]"
proof -
  have cm: "fst (check_master example_cluster not_standby_world) = Inr False"
    by (simp add: check_master_def get_conn_def not_standby_world_def quiet_world_def Let_def)
  have run: "commands_run (snd (promote example_cluster False not_standby_world))
               = commands_run not_standby_world @ [py_split (promote_cmd example_cluster)]"
    using promote_proceeds(1) [of example_cluster not_standby_world False] cm by simp
  have h1: "commands_run (snd (promote example_cluster False not_standby_world))
              \<noteq> commands_run not_standby_world"
    using run by simp
  have h2: "subprocess_result not_standby_world (py_split (promote_cmd example_cluster))
              = Exited 1 (''pg_ctl: cannot promote server; '' @ not_standby)"
    by (simp add: not_standby_world_def quiet_world_def)
  have h3: "(1::int) \<noteq> 0" by simp
  have h4: "endswith (''pg_ctl: cannot promote server; '' @ not_standby) not_standby"
    by (rule endswith_append)
  show ?thesis
    using promote_not_in_standby [OF h1 h2 h3 h4] py_split_example
    by (simp add: not_standby_world_def quiet_world_def not_standby_def)
qed

text \<open>
  C9. When connecting to the primary name raises \<^verbatim>\<open>OperationalError\<close>, \<^verbatim>\<open>check_master\<close>
  returns False and \<^verbatim>\<open>promote(force=False)\<close> runs the promotion command once; what
  \<^verbatim>\<open>promote\<close> returns or raises is then decided by that command alone.
\<close>

theorem promote_master_unreachable:
  assumes "get_conn (Some (master_cname c)) None None w = Inl OperationalError"
  shows "fst (check_master c w) = Inr False
         \<and> commands_run (snd (promote c False w)) = commands_run w @ [py_split (promote_cmd c)]
         \<and> fst (promote c False w) =
             (case subprocess_result w (py_split (promote_cmd c)) of
                Exited rc out \<Rightarrow>
                  (if rc = 0 then Inr ()
                   else if endswith out not_standby then Inl (Exception out)
                   else Inl (CalledProcessError rc (py_split (promote_cmd c)) out))
              | NoSuchProgram \<Rightarrow> Inl OSError)"
proof -
  have cm: "fst (check_master c w) = Inr False"
    using assms by (simp add: check_master_def get_conn_def Let_def)
  then show ?thesis
    using promote_proceeds [of c w False] by simp
qed

theorem promote_master_unreachable_witness:
  "fst (promote example_cluster False (quiet_world [primary_binding example_cluster ''a.example.com'']))
     = Inr ()
   \<and> commands_run (snd (promote example_cluster False
         (quiet_world [primary_binding example_cluster ''a.example.com''])))
       = [[''/usr/bin/pg_ctl'', ''-D'', ''/var/lib/postgresql'', ''promote'']]"
proof -
  have h: "get_conn (Some (master_cname example_cluster)) None None
             (quiet_world [primary_binding example_cluster ''a.example.com'']) = Inl OperationalError"
    by (simp add: get_conn_def quiet_world_def)
  show ?thesis
    using promote_master_unreachable [OF h] py_split_example
    by (simp add: quiet_world_def)
qed

section \<open>Bootstrap\<close>

lemma commit_error:
  "fst (commit chs w) = Inl e \<Longrightarrow> \<exists>m. e = DNSServerError m"
  by (auto simp add: commit_def split: option.splits sum.splits)

lemma commit_then_raises:
  "fst (case commit chs w of (Inl e, w4) \<Rightarrow> (Inl e, w4) | (Inr u, w4) \<Rightarrow> (Inr (), f w4))
     \<noteq> Inl (Exception m)"
proof (cases "commit chs w")
  case (Pair r w4)
  then show ?thesis
    using commit_error [of chs w] by (cases r) auto
qed

lemma acquire_master_cname_raises:
  assumes "fst (acquire_master_cname c False w) = Inl (Exception m)"
  shows "m = ''CNAME '' @ master_cname c @ '' exists and force is False - not taking the CNAME''"
proof (cases "resolver_query w (master_cname c)")
  case (Inl e)
  show ?thesis
  proof (cases "e = NXDOMAIN")
    case True
    show ?thesis
    proof (cases "metadata c ''public-hostname''")
      case None
      then show ?thesis
        using assms Inl True by (simp add: acquire_master_cname_def)
    next
      case (Some host)
      then show ?thesis
        using assms Inl True commit_then_raises
        by (simp add: acquire_master_cname_def)
    qed
  next
    case False
    then show ?thesis
      using assms Inl by (simp add: acquire_master_cname_def)
  qed
next
  case (Inr answers)
  then show ?thesis
    using assms by (cases answers) (simp_all add: acquire_master_cname_def)
qed

lemma write_recovery_conf_raises:
  "fst (write_recovery_conf c t w) \<noteq> Inl (Exception m)"
  by (simp add: write_recovery_conf_def Let_def split: option.splits)

lemma add_to_slave_cname_pool_raises:
  "fst (add_to_slave_cname_pool c w) \<noteq> Inl (Exception m)"
proof (cases "metadata c ''instance-id''")
  case None
  then show ?thesis by (simp add: add_to_slave_cname_pool_def)
next
  case ident: (Some ident)
  show ?thesis
  proof (cases "metadata c ''public-hostname''")
    case None
    then show ?thesis using ident by (simp add: add_to_slave_cname_pool_def Let_def)
  next
    case (Some host)
    show ?thesis
    proof (cases "fst (commit [Change CREATE (pool_entry c ident host)] w)")
      case (Inl e)
      then obtain m' where "e = DNSServerError m'"
        using commit_error by blast
      then show ?thesis
        using Inl by (simp add: add_to_slave_cname_pool_unfold(1) [OF ident Some])
    next
      case (Inr u)
      then show ?thesis
        by (simp add: add_to_slave_cname_pool_unfold(1) [OF ident Some])
    qed
  qed
qed

lemma start_process_raises:
  "fst (start_process c w) \<noteq> Inl (Exception m)"
  by (simp add: start_process_def check_call_def Let_def split: proc_result.splits)

lemma prepare_master_raises:
  assumes "fst (prepare_master c w) = Inl (Exception m)"
  shows "m = ''CNAME '' @ master_cname c @ '' exists and force is False - not taking the CNAME''"
proof (cases "acquire_master_cname c False w")
  case (Pair r w1)
  show ?thesis
  proof (cases r)
    case (Inl e)
    then show ?thesis
      using assms Pair acquire_master_cname_raises [of c w m]
      by (simp add: prepare_master_def)
  next
    case (Inr u)
    show ?thesis
    proof (cases "write_recovery_conf c (RECOVERY_TEMPLATE_MASTER (module_settings c)) w1")
      case (Pair r2 w2)
      then show ?thesis
        using assms \<open>acquire_master_cname c False w = (r, w1)\<close> Inr
          write_recovery_conf_raises [of c "RECOVERY_TEMPLATE_MASTER (module_settings c)" w1 m]
        by (cases r2) (simp_all add: prepare_master_def)
    qed
  qed
qed

lemma prepare_slave_raises:
  "fst (prepare_slave c w) \<noteq> Inl (Exception m)"
proof (cases "write_recovery_conf c (RECOVERY_TEMPLATE_SLAVE (module_settings c)) w")
  case (Pair r w1)
  then show ?thesis
    using write_recovery_conf_raises [of c "RECOVERY_TEMPLATE_SLAVE (module_settings c)" w m]
      add_to_slave_cname_pool_raises
    by (cases r) (simp_all add: prepare_slave_def)
qed

lemma determine_role_returns:
  assumes "fst (determine_role c w) = Inr r"
  shows "r = MASTER \<or> r = SLAVE"
  using assms
  by (auto simp add: determine_role_def Let_def split: sum.splits if_splits)

lemma get_roles_keys: "get_roles MASTER = Some prepare_master" "get_roles SLAVE = Some prepare_slave"
  by (simp_all add: get_roles_def MASTER_def SLAVE_def)

lemma initialise_raises:
  assumes "fst (initialise c w) = Inl (Exception m)"
  shows "m = ''CNAME '' @ master_cname c @ '' exists and force is False - not taking the CNAME''"
proof (cases "determine_role c w")
  case (Pair r w1)
  show ?thesis
  proof (cases r)
    case (Inl e)
    then have "e = Exception m"
      using assms Pair by (simp add: initialise_def)
    then show ?thesis
      using Pair Inl
      by (auto simp add: determine_role_def Let_def split: sum.splits if_splits)
  next
    case (Inr role)
    then have "role = MASTER \<or> role = SLAVE"
      using determine_role_returns [of c w role] Pair by simp
    then show ?thesis
    proof
      assume m: "role = MASTER"
      obtain r2 w3 where p: "prepare_master c (w1\<lparr>self_role := Some MASTER\<rparr>) = (r2, w3)"
        by (cases "prepare_master c (w1\<lparr>self_role := Some MASTER\<rparr>)")
      show ?thesis
      proof (cases r2)
        case (Inl e)
        then show ?thesis
          using assms Pair Inr m p prepare_master_raises [of c "w1\<lparr>self_role := Some MASTER\<rparr>" m]
          by (simp add: initialise_def get_roles_keys Let_def)
      next
        case (Inr u)
        obtain r3 w4 where s: "start_process c w3 = (r3, w4)"
          by (cases "start_process c w3")
        show ?thesis
          using assms Pair \<open>r = Inr role\<close> m p Inr s start_process_raises [of c w3 m]
          by (cases r3) (simp_all add: initialise_def get_roles_keys Let_def poll_process_def)
      qed
    next
      assume m: "role = SLAVE"
      obtain r2 w3 where p: "prepare_slave c (w1\<lparr>self_role := Some SLAVE\<rparr>) = (r2, w3)"
        by (cases "prepare_slave c (w1\<lparr>self_role := Some SLAVE\<rparr>)")
      show ?thesis
      proof (cases r2)
        case (Inl e)
        then show ?thesis
          using assms Pair Inr m p prepare_slave_raises [of c "w1\<lparr>self_role := Some SLAVE\<rparr>" m]
          by (simp add: initialise_def get_roles_keys Let_def)
      next
        case (Inr u)
        obtain r3 w4 where s: "start_process c w3 = (r3, w4)"
          by (cases "start_process c w3")
        show ?thesis
          using assms Pair \<open>r = Inr role\<close> m p Inr s start_process_raises [of c w3 m]
          by (cases r3) (simp_all add: initialise_def get_roles_keys Let_def poll_process_def)
      qed
    qed
  qed
qed

text \<open>
  C10. A role that \<^verbatim>\<open>determine_role\<close> returns is \<open>master\<close> or \<open>slave\<close>, both are keys of
  the mapping of \<^verbatim>\<open>get_roles\<close>, and \<^verbatim>\<open>initialise\<close> never raises the exception of its
  unknown-role branch.
\<close>

theorem initialise_role_always_known:
  "(fst (determine_role c w) = Inr r \<longrightarrow> (r = MASTER \<or> r = SLAVE) \<and> r \<in> dom get_roles)
   \<and> MASTER \<in> dom get_roles \<and> SLAVE \<in> dom get_roles
   \<and> fst (initialise c w) \<noteq> Inl (Exception (''Unrecognised role: '' @ r'))"
proof -
  have keys: "MASTER \<in> dom get_roles" "SLAVE \<in> dom get_roles"
    using get_roles_keys by (simp_all add: dom_def)
  have "fst (initialise c w) \<noteq> Inl (Exception (''Unrecognised role: '' @ r'))"
  proof
    assume "fst (initialise c w) = Inl (Exception (''Unrecognised role: '' @ r'))"
    then have "''Unrecognised role: '' @ r'
                 = ''CNAME '' @ master_cname c @ '' exists and force is False - not taking the CNAME''"
      by (rule initialise_raises)
    then show False by simp
  qed
  then show ?thesis
    using keys determine_role_returns [of c w r] by auto
qed

theorem initialise_role_always_known_witness:
  "fst (determine_role example_cluster bootable_world) = Inr MASTER
   \<and> MASTER \<in> dom get_roles
   \<and> fst (initialise example_cluster bootable_world) = Inr ()"
  using initialise_role_always_known [of example_cluster bootable_world MASTER "[]"]
  by (simp add: initialise_def determine_role_def resolver_query_def bindings_def
      bootable_world_def quiet_world_def example_cluster_def example_settings_def
      get_roles_def MASTER_def SLAVE_def prepare_master_def acquire_master_cname_def
      commit_def primary_binding_def same_set_def write_recovery_conf_def
      configure_cron_backup_def start_process_def check_call_def poll_process_def
      backup_cmd_def log_def Let_def)

end
